theory Spec2Isabelle
  imports Main "HOL-Library.Sublist"
begin

section \<open>JavaScript values\<close>

text \<open>
  A value that the code reads as a string but that may be absent is a \<open>string option\<close>:
  \<open>None\<close> stands for \<open>undefined\<close> and \<open>null\<close>. The operator \<open>a || b\<close> yields \<open>a\<close> when
  \<open>a\<close> is truthy (for strings: present and not empty) and \<open>b\<close> otherwise.
\<close>

definition truthy :: "string option \<Rightarrow> bool" where
  "truthy v = (case v of None \<Rightarrow> False | Some s \<Rightarrow> s \<noteq> [])"

definition js_or :: "string option \<Rightarrow> string option \<Rightarrow> string option" where
  "js_or a b = (if truthy a then a else b)"

text \<open>
  The text fields of the local profile keep \<open>undefined\<close> and \<open>null\<close> apart, because a
  template literal and \<open>JSON.stringify\<close> treat them differently.
\<close>

datatype field = Undefined | Null | Text string

fun present :: "field \<Rightarrow> string option" where
  "present (Text s) = Some s"
| "present v = None"

text \<open>Parsed JSON. A number is kept as an integer: no claim computes with numbers.\<close>

datatype json =
    JNull
  | JBool bool
  | JNum int
  | JStr string
  | JArr "json list"
  | JObj "(string \<times> json) list"

text \<open>
  The libraries the modules call but that are not part of the repository: CryptoJS
  (\<open>AES.encrypt\<close>, \<open>AES.decrypt(...).toString(Utf8)\<close>, \<open>SHA256\<close>), the built-in \<open>JSON\<close>
  object, \<open>Date.prototype.toISOString\<close> and \<open>setFullYear(getFullYear() + 1)\<close>, and
  \<open>RTCPeerConnection\<close> behind \<open>WebRTC.completeConnection\<close>. They are parameters of the model.
  \<open>aes_encrypt\<close> takes the random salt CryptoJS draws as its first argument;
  \<open>aes_decrypt\<close> yields \<open>None\<close> when the call throws (malformed UTF-8, malformed input).
  \<open>json_parse\<close> yields \<open>None\<close> when \<open>JSON.parse\<close> throws.
\<close>

record env =
  aes_encrypt :: "nat \<Rightarrow> string \<Rightarrow> string \<Rightarrow> string"
  aes_decrypt :: "string \<Rightarrow> string \<Rightarrow> string option"
  sha256 :: "string \<Rightarrow> string"
  json_parse :: "string \<Rightarrow> json option"
  json_stringify :: "json \<Rightarrow> string"
  toISOString :: "int \<Rightarrow> string"
  plusOneYear :: "int \<Rightarrow> int"
  finalize :: "json option \<Rightarrow> bool"

section \<open>Crypto module\<close>

record keyPair =
  kp_publicKey :: string
  kp_privateKey :: string

record identity =
  i_did :: string
  i_publicKey :: string
  i_privateKey :: string
  i_created :: string

definition SALT :: string where
  "SALT = ''CurrentCircle_v1_''"

text \<open>\<open>generateKeyPair\<close>: \<open>rnd\<close> is the hex string of the 32 random bytes drawn.\<close>

definition generateKeyPair :: "env \<Rightarrow> string \<Rightarrow> keyPair" where
  "generateKeyPair E rnd =
     (let privateKey = rnd;
          publicKey = sha256 E privateKey
      in \<lparr>kp_publicKey = publicKey, kp_privateKey = privateKey\<rparr>)"

definition encryptMessage :: "env \<Rightarrow> nat \<Rightarrow> string \<Rightarrow> string \<Rightarrow> string" where
  "encryptMessage E salt message key = aes_encrypt E salt message key"

text \<open>
  \<open>decryptMessage\<close>: the whole body is inside \<open>try\<close>; any exception gives \<open>null\<close>. A
  ciphertext that is \<open>undefined\<close> makes CryptoJS read a property of \<open>undefined\<close>, which
  throws inside the \<open>try\<close> as well.
\<close>

definition decryptMessage :: "env \<Rightarrow> string option \<Rightarrow> string \<Rightarrow> string option" where
  "decryptMessage E encryptedMessage key =
     (case encryptedMessage of
        None \<Rightarrow> None
      | Some c \<Rightarrow> (case aes_decrypt E c key of None \<Rightarrow> None | Some decrypted \<Rightarrow> Some decrypted))"

definition identity_json :: "identity \<Rightarrow> json" where
  "identity_json i =
     JObj [(''did'', JStr (i_did i)), (''publicKey'', JStr (i_publicKey i)),
           (''privateKey'', JStr (i_privateKey i)), (''created'', JStr (i_created i))]"

definition exportIdentity :: "env \<Rightarrow> nat \<Rightarrow> identity \<Rightarrow> string \<Rightarrow> string" where
  "exportIdentity E salt ident password =
     (let identityString = json_stringify E (identity_json ident)
      in aes_encrypt E salt identityString (SALT @ password))"

text \<open>
  \<open>importIdentity\<close> returns what \<open>JSON.parse\<close> returns, or \<open>null\<close> (\<open>JNull\<close>) when the
  decryption or the parse throws.
\<close>

definition importIdentity :: "env \<Rightarrow> string \<Rightarrow> string \<Rightarrow> json" where
  "importIdentity E encryptedIdentity password =
     (case aes_decrypt E encryptedIdentity (SALT @ password) of
        None \<Rightarrow> JNull
      | Some decrypted \<Rightarrow> (case json_parse E decrypted of None \<Rightarrow> JNull | Some v \<Rightarrow> v))"

record profile =
  pr_id :: string
  pr_firstName :: field
  pr_lastName :: field
  pr_nickname :: field
  pr_bio :: field
  pr_profilePicture :: "string option"
  pr_identity :: identity

definition json_of :: "string option \<Rightarrow> json option" where
  "json_of v = map_option JStr v"

fun json_of_field :: "field \<Rightarrow> json option" where
  "json_of_field Undefined = None"
| "json_of_field Null = Some JNull"
| "json_of_field (Text s) = Some (JStr s)"

text \<open>An object literal: a property whose value is \<open>undefined\<close> is left out by \<open>JSON.stringify\<close>.\<close>

fun obj :: "(string \<times> json option) list \<Rightarrow> (string \<times> json) list" where
  "obj [] = []"
| "obj ((k, None) # kvs) = obj kvs"
| "obj ((k, Some v) # kvs) = (k, v) # obj kvs"

definition createBackupData :: "env \<Rightarrow> nat \<Rightarrow> int \<Rightarrow> profile \<Rightarrow> identity \<Rightarrow> string" where
  "createBackupData E salt now prof ident =
     (let backupData = JObj
        [(''profile'', JObj (obj
            [(''id'', Some (JStr (pr_id prof))),
             (''firstName'', json_of_field (pr_firstName prof)),
             (''lastName'', json_of_field (pr_lastName prof)),
             (''nickname'', json_of_field (pr_nickname prof)),
             (''bio'', json_of_field (pr_bio prof))])),
         (''identity'', identity_json ident),
         (''backupDate'', JStr (toISOString E now))]
      in encryptMessage E salt (json_stringify E backupData) (i_publicKey ident))"

section \<open>Records of the stores\<close>

record connection =
  c_id :: string
  c_did :: json
  c_publicKey :: "string option"
  c_firstName :: "string option"
  c_lastName :: "string option"
  c_nickname :: "string option"
  c_bio :: "string option"
  c_profilePicture :: "string option"
  c_firstConnected :: int
  c_lastConnected :: int
  c_expiresOn :: int
  c_connectionCount :: nat
  c_backupData :: string

text \<open>
  The times of a connection record are milliseconds since the epoch; the code stores
  their \<open>toISOString\<close> rendering.
\<close>

record message =
  m_id :: "string option"
  m_senderId :: "string option"
  m_senderName :: "string option"
  m_recipientId :: "string option"
  m_recipientName :: "string option"
  m_content :: "string option"
  m_encrypted :: "string option"
  m_timestamp :: "int option"
  m_status :: "string option"
  m_isRelay :: bool

record relay =
  r_id :: string
  r_messageId :: string
  r_originalSenderId :: string
  r_originalSenderName :: string
  r_targetRecipientId :: string
  r_targetRecipientName :: string
  r_encryptedContent :: string
  r_timestamp :: int
  r_status :: string

datatype error =
    TypeError
  | DataError
  | ConstraintError
  | InvalidQRCodeFormat
  | UnsupportedQRCodeType
  | DIDMismatch
  | TransportError

section \<open>DB module\<close>

text \<open>
  An object store with key path \<open>id\<close>: \<open>put\<close> replaces the record that has the key, or
  adds the record; \<open>delete\<close> removes the record that has the key.
\<close>

fun put :: "('r \<Rightarrow> 'k) \<Rightarrow> 'r \<Rightarrow> 'r list \<Rightarrow> 'r list" where
  "put key r [] = [r]"
| "put key r (x # xs) = (if key x = key r then r # xs else x # put key r xs)"

definition delete :: "('r \<Rightarrow> 'k) \<Rightarrow> 'k \<Rightarrow> 'r list \<Rightarrow> 'r list" where
  "delete key k xs = filter (\<lambda>x. key x \<noteq> k) xs"

text \<open>
  The values IndexedDB takes as a key: numbers, strings, and arrays of keys. A did is
  kept as the JSON value it is, since the did index takes any of these.
\<close>

fun validKey :: "json \<Rightarrow> bool" where
  "validKey (JNum n) = True"
| "validKey (JStr s) = True"
| "validKey (JArr vs) = list_all validKey vs"
| "validKey v = False"

text \<open>
  The connections store has a unique index on \<open>did\<close>: a \<open>put\<close> that would give two
  records the same did fails with a \<open>ConstraintError\<close>. A record whose did is not a
  valid key is not in the index.
\<close>

definition saveConnection :: "connection \<Rightarrow> connection list \<Rightarrow> error + connection list" where
  "saveConnection c db =
     (if validKey (c_did c) \<and> list_ex (\<lambda>x. c_did x = c_did c \<and> c_id x \<noteq> c_id c) db
      then Inl ConstraintError
      else Inr (put c_id c db))"

text \<open>
  \<open>getConnectionByDID\<close> for a valid key; for any other value \<open>index.get\<close> throws a
  \<open>DataError\<close>, which \<open>addConnection\<close> below accounts for before it calls this.
\<close>

definition getConnectionByDID :: "json \<Rightarrow> connection list \<Rightarrow> connection option" where
  "getConnectionByDID d db = find (\<lambda>x. c_did x = d) db"

text \<open>The messages store: a record without a value at the key path is refused (\<open>DataError\<close>).\<close>

definition saveMessage :: "message \<Rightarrow> message list \<Rightarrow> error + message list" where
  "saveMessage m db =
     (case m_id m of None \<Rightarrow> Inl DataError | Some k \<Rightarrow> Inr (put m_id m db))"

definition deleteRelay :: "string \<Rightarrow> relay list \<Rightarrow> relay list" where
  "deleteRelay k db = delete r_id k db"

section \<open>App module: connections\<close>

record app =
  a_profile :: "profile option"
  a_identity :: "identity option"
  a_connections :: "connection list"
  a_received :: "message list"
  a_sent :: "message list"
  a_relays :: "relay list"
  db_connections :: "connection list"
  db_messages :: "message list"
  db_relays :: "relay list"

text \<open>
  What one call reads from its environment: the identifier \<open>uuid.v4()\<close> returns, the
  clock at each \<open>new Date()\<close> in the order of the calls (the expiry date is computed
  first, from its own reading), and the salt of the backup's encryption.
\<close>

record readings =
  uuid :: string
  now_expires :: int
  now_first :: int
  now_last :: int
  now_backup :: int
  salt :: nat

record profileFields =
  pf_firstName :: "string option"
  pf_lastName :: "string option"
  pf_nickname :: "string option"
  pf_bio :: "string option"

text \<open>The argument of \<open>addConnection\<close>; its callers always pass a \<open>profile\<close> object.\<close>

record connectionData =
  cd_did :: json
  cd_publicKey :: "string option"
  cd_profile :: profileFields
  cd_profilePicture :: "string option"

text \<open>\<open>Crypto.createBackupData(state.profile, state.identity)\<close> reads fields of both objects.\<close>

definition backupData :: "env \<Rightarrow> readings \<Rightarrow> app \<Rightarrow> error + string" where
  "backupData E rd s =
     (case a_profile s of
        None \<Rightarrow> Inl TypeError
      | Some p \<Rightarrow> (case a_identity s of
          None \<Rightarrow> Inl TypeError
        | Some i \<Rightarrow> Inr (createBackupData E (salt rd) (now_backup rd) p i)))"

definition createNewConnection ::
  "env \<Rightarrow> readings \<Rightarrow> app \<Rightarrow> connectionData \<Rightarrow> error + (app \<times> connection)" where
  "createNewConnection E rd s cd =
     (let expiresOn = plusOneYear E (now_expires rd) in
      case backupData E rd s of
        Inl e \<Rightarrow> Inl e
      | Inr backup \<Rightarrow>
          (let conn = \<lparr>c_id = uuid rd,
                       c_did = cd_did cd,
                       c_publicKey = cd_publicKey cd,
                       c_firstName = pf_firstName (cd_profile cd),
                       c_lastName = pf_lastName (cd_profile cd),
                       c_nickname = pf_nickname (cd_profile cd),
                       c_bio = pf_bio (cd_profile cd),
                       c_profilePicture = js_or (cd_profilePicture cd) None,
                       c_firstConnected = now_first rd,
                       c_lastConnected = now_last rd,
                       c_expiresOn = expiresOn,
                       c_connectionCount = 1,
                       c_backupData = backup\<rparr>
           in case saveConnection conn (db_connections s) of
                Inl e \<Rightarrow> Inl e
              | Inr db \<Rightarrow>
                  Inr (s\<lparr>db_connections := db, a_connections := a_connections s @ [conn]\<rparr>,
                       conn)))"

text \<open>\<open>state.connections[findIndex(...)] = updatedConnection\<close>, nothing when the index is -1.\<close>

fun replaceFirst :: "('r \<Rightarrow> bool) \<Rightarrow> 'r \<Rightarrow> 'r list \<Rightarrow> 'r list" where
  "replaceFirst p r [] = []"
| "replaceFirst p r (x # xs) = (if p x then r # xs else x # replaceFirst p r xs)"

text \<open>The object \<open>updatedConnection\<close> that \<open>updateExistingConnection\<close> builds.\<close>

definition updatedConnection ::
  "env \<Rightarrow> readings \<Rightarrow> string \<Rightarrow> connection \<Rightarrow> connectionData \<Rightarrow> connection" where
  "updatedConnection E rd backup existingConnection newData =
     (let expiresOn = plusOneYear E (now_expires rd);
          updated = existingConnection
            \<lparr>c_publicKey := js_or (cd_publicKey newData) (c_publicKey existingConnection),
             c_firstName := js_or (pf_firstName (cd_profile newData)) (c_firstName existingConnection),
             c_lastName := js_or (pf_lastName (cd_profile newData)) (c_lastName existingConnection),
             c_nickname := js_or (pf_nickname (cd_profile newData)) (c_nickname existingConnection),
             c_bio := js_or (pf_bio (cd_profile newData)) (c_bio existingConnection),
             c_lastConnected := now_last rd,
             c_expiresOn := expiresOn,
             c_connectionCount := c_connectionCount existingConnection + 1,
             c_backupData := backup\<rparr>
      in if truthy (cd_profilePicture newData)
         then updated\<lparr>c_profilePicture := cd_profilePicture newData\<rparr>
         else updated)"

definition updateExistingConnection ::
  "env \<Rightarrow> readings \<Rightarrow> app \<Rightarrow> connection \<Rightarrow> connectionData \<Rightarrow> error + (app \<times> connection)" where
  "updateExistingConnection E rd s existingConnection newData =
     (case backupData E rd s of
        Inl e \<Rightarrow> Inl e
      | Inr backup \<Rightarrow>
          (let updated = updatedConnection E rd backup existingConnection newData
           in case saveConnection updated (db_connections s) of
                Inl e \<Rightarrow> Inl e
              | Inr db \<Rightarrow>
                  Inr (s\<lparr>db_connections := db,
                         a_connections :=
                           replaceFirst (\<lambda>c. c_id c = c_id updated) updated (a_connections s)\<rparr>,
                       updated)))"

definition addConnection ::
  "env \<Rightarrow> readings \<Rightarrow> app \<Rightarrow> connectionData \<Rightarrow> error + (app \<times> connection)" where
  "addConnection E rd s cd =
     (if \<not> validKey (cd_did cd) then Inl DataError
      else case getConnectionByDID (cd_did cd) (db_connections s) of
             Some existingConnection \<Rightarrow> updateExistingConnection E rd s existingConnection cd
           | None \<Rightarrow> createNewConnection E rd s cd)"

section \<open>App module: messages and relays\<close>

text \<open>
  A loop that can throw after it has changed the state returns the state reached and the
  error, if any. \<open>uuidAt k\<close> and \<open>clockAt k\<close> are what \<open>uuid.v4()\<close> and \<open>new Date()\<close>
  return in the \<open>k\<close>-th pass of a loop.
\<close>

fun receiveLoop :: "env \<Rightarrow> app \<Rightarrow> message list \<Rightarrow> app \<times> error option" where
  "receiveLoop E s [] = (s, None)"
| "receiveLoop E s (m # ms) =
     (let existingMessage = find (\<lambda>x. m_id x = m_id m) (a_received s) in
      if existingMessage = None then
        (case a_identity s of
           None \<Rightarrow> (s, Some TypeError)
         | Some i \<Rightarrow>
             (let m' = m\<lparr>m_content := decryptMessage E (m_encrypted m) (i_privateKey i)\<rparr>
              in case saveMessage m' (db_messages s) of
                   Inl e \<Rightarrow> (s, Some e)
                 | Inr db \<Rightarrow>
                     receiveLoop E (s\<lparr>db_messages := db, a_received := a_received s @ [m']\<rparr>) ms))
      else receiveLoop E s ms)"












text \<open>\<open>processRelaysForConnection\<close>: the loop over \<open>relaysToDeliver\<close>, then the function.\<close>

fun deliverLoop ::
  "(nat \<Rightarrow> string) \<Rightarrow> (nat \<Rightarrow> int) \<Rightarrow> nat \<Rightarrow> app \<Rightarrow> relay list \<Rightarrow> message list \<Rightarrow> app \<times> message list" where
  "deliverLoop uuidAt clockAt k s [] deliveredRelays = (s, deliveredRelays)"
| "deliverLoop uuidAt clockAt k s (r # rs) deliveredRelays =
     (let msg = \<lparr>m_id = Some (uuidAt k),
                 m_senderId = Some (r_originalSenderId r),
                 m_senderName = Some (r_originalSenderName r),
                 m_recipientId = Some (r_targetRecipientId r),
                 m_recipientName = Some (r_targetRecipientName r),
                 m_content = None,
                 m_encrypted = Some (r_encryptedContent r),
                 m_timestamp = Some (clockAt k),
                 m_status = Some ''delivered'',
                 m_isRelay = True\<rparr>;
          s' = s\<lparr>db_relays := deleteRelay (r_id r) (db_relays s),
                 a_relays := filter (\<lambda>x. r_id x \<noteq> r_id r) (a_relays s)\<rparr>
      in deliverLoop uuidAt clockAt (Suc k) s' rs (deliveredRelays @ [msg]))"

definition processRelaysForConnection ::
  "(nat \<Rightarrow> string) \<Rightarrow> (nat \<Rightarrow> int) \<Rightarrow> app \<Rightarrow> connection \<Rightarrow> app \<times> message list" where
  "processRelaysForConnection uuidAt clockAt s conn =
     (let relaysToDeliver = filter (\<lambda>r. JStr (r_targetRecipientId r) = c_did conn) (a_relays s)
      in if length relaysToDeliver = 0 then (s, [])
         else deliverLoop uuidAt clockAt 0 s relaysToDeliver [])"

section \<open>Connect module\<close>

datatype stage =
    INIT
  | OFFER_CREATED
  | SCANNING
  | OFFER_SCANNED
  | ANSWER_CREATED
  | ANSWER_SCANNED
  | CONNECTED
  | EXCHANGING
  | COMPLETE
  | FAILED

text \<open>
  The data-channel messages, without their \<open>timestamp\<close> field. \<open>WProfile\<close> carries the
  \<open>profile\<close> object (names, did, public key) and the optional picture.
\<close>

datatype wire =
    WProfile profileFields string string "string option"
  | WConnections "(string option \<times> string option \<times> json) list"
  | WMessages "message list"
  | WRelays "relay list"
  | WComplete
  | WProfileAck
  | WConnectionsAck nat
  | WMessagesAck nat
  | WRelaysAck nat

fun wire_type :: "wire \<Rightarrow> string" where
  "wire_type (WProfile f d k p) = ''profile''"
| "wire_type (WConnections cs) = ''connections''"
| "wire_type (WMessages ms) = ''messages''"
| "wire_type (WRelays rs) = ''relays''"
| "wire_type WComplete = ''complete''"
| "wire_type WProfileAck = ''profile_ack''"
| "wire_type (WConnectionsAck n) = ''connections_ack''"
| "wire_type (WMessagesAck n) = ''messages_ack''"
| "wire_type (WRelaysAck n) = ''relays_ack''"

text \<open>
  The WebRTC module as \<open>sendData\<close> sees it: \<open>channelOpen\<close> lists whether the data channel
  exists and is open at each coming call of \<open>sendData\<close> (closed once the list is used
  up); \<open>sent\<close> is what was handed to \<open>dataChannel.send\<close>, oldest first.
\<close>

record webrtc =
  channelOpen :: "bool list"
  sent :: "wire list"

definition sendData :: "wire \<Rightarrow> webrtc \<Rightarrow> webrtc \<times> bool" where
  "sendData d w =
     (case channelOpen w of
        [] \<Rightarrow> (w, False)
      | b # bs \<Rightarrow>
          if b then (w\<lparr>channelOpen := bs, sent := sent w @ [d]\<rparr>, True)
          else (w\<lparr>channelOpen := bs\<rparr>, False))"

definition closeConnection :: "webrtc \<Rightarrow> webrtc" where
  "closeConnection w = w\<lparr>channelOpen := []\<rparr>"

text \<open>
  The module's variables, and two fields that are not in the source. \<open>stageLog\<close> records
  every value assigned to \<open>connectionStage\<close>, oldest first. \<open>timers\<close> holds the runs of
  \<open>handleDataExchange\<close> that are suspended in an \<open>await\<close>: for each, the number of the
  step at which it continues when its 500 ms timer fires. All the timers have the same
  delay, so they fire in the order in which they were set: the list is a queue, oldest
  first.
\<close>

record connect =
  connectionStage :: stage
  connectionData :: "json option"
  localDescription :: "json option"
  remoteDescription :: "json option"
  stageLog :: "stage list"
  timers :: "nat list"

definition setStage :: "stage \<Rightarrow> connect \<Rightarrow> connect" where
  "setStage st c = c\<lparr>connectionStage := st, stageLog := stageLog c @ [st]\<rparr>"

text \<open>Reading a property of a value that is neither \<open>null\<close> nor \<open>undefined\<close>.\<close>

fun getProp :: "json \<Rightarrow> string \<Rightarrow> json option" where
  "getProp (JObj kvs) k = map_of kvs k"
| "getProp v k = None"

fun js_truthy :: "json option \<Rightarrow> bool" where
  "js_truthy None = False"
| "js_truthy (Some JNull) = False"
| "js_truthy (Some (JBool b)) = b"
| "js_truthy (Some (JNum n)) = (n \<noteq> 0)"
| "js_truthy (Some (JStr s)) = (s \<noteq> [])"
| "js_truthy (Some (JArr vs)) = True"
| "js_truthy (Some (JObj kvs)) = True"

text \<open>
  \<open>===\<close> on two values read from two different parsed objects: primitives by value,
  objects and arrays never equal (they are different references).
\<close>

fun primitive :: "json \<Rightarrow> bool" where
  "primitive (JArr vs) = False"
| "primitive (JObj kvs) = False"
| "primitive v = True"

definition strict_eq :: "json option \<Rightarrow> json option \<Rightarrow> bool" where
  "strict_eq a b = (case a of None \<Rightarrow> b = None | Some x \<Rightarrow> primitive x \<and> b = Some x)"

definition str :: "json option \<Rightarrow> string option" where
  "str v = (case v of Some (JStr s) \<Rightarrow> Some s | _ \<Rightarrow> None)"

definition sendProfileData :: "profile \<Rightarrow> webrtc \<Rightarrow> webrtc" where
  "sendProfileData p w =
     fst (sendData
       (WProfile \<lparr>pf_firstName = present (pr_firstName p),
                  pf_lastName = present (pr_lastName p),
                  pf_nickname = js_or (present (pr_nickname p)) (Some []),
                  pf_bio = js_or (present (pr_bio p)) (Some [])\<rparr>
          (i_did (pr_identity p)) (i_publicKey (pr_identity p))
          (if truthy (pr_profilePicture p) then pr_profilePicture p else None)) w)"

definition sendConnectionsData :: "connection list \<Rightarrow> webrtc \<Rightarrow> webrtc" where
  "sendConnectionsData conns w =
     (let connectionsData = map (\<lambda>c. (c_firstName c, c_lastName c, c_did c)) conns
      in fst (sendData (WConnections connectionsData) w))"

definition sendMessagesData :: "webrtc \<Rightarrow> webrtc" where
  "sendMessagesData w = (let messagesToSend = [] in fst (sendData (WMessages messagesToSend) w))"

definition sendRelaysData :: "connect \<Rightarrow> relay list \<Rightarrow> webrtc \<Rightarrow> webrtc" where
  "sendRelaysData c relays w =
     (let relaysToSend =
        (case connectionData c of
           None \<Rightarrow> []
         | Some cd \<Rightarrow>
             if js_truthy (Some cd) \<and> js_truthy (getProp cd ''did'')
             then filter (\<lambda>r. strict_eq (Some (JStr (r_targetRecipientId r))) (getProp cd ''did'')) relays
             else [])
      in fst (sendData (WRelays relaysToSend) w))"

text \<open>
  \<open>handleDataExchange\<close> runs in five pieces. Each \<open>send...Data\<close> calls \<open>sendData\<close> at
  once and resolves from a 500 ms timer, so the function is suspended after each of
  its first four sends, and other events are handled in between. The first piece, up
  to the first suspension: the stage is set, and \<open>sendProfileData\<close> reads fields of
  \<open>state.profile\<close> inside its promise; without a profile that throws, the promise
  rejects, and the \<open>catch\<close> runs.
\<close>

definition handleDataExchange :: "app \<Rightarrow> connect \<times> webrtc \<Rightarrow> connect \<times> webrtc" where
  "handleDataExchange a cw =
     (let c = setStage EXCHANGING (fst cw); w = snd cw in
      case a_profile a of
        None \<Rightarrow> (setStage FAILED c, w)
      | Some p \<Rightarrow> (c\<lparr>timers := timers c @ [1]\<rparr>, sendProfileData p w))"

text \<open>
  The oldest timer fires and its run of \<open>handleDataExchange\<close> continues with its next
  send: the connections (step 1), the messages (2), the relays (3), each followed by
  a new timer, and at last \<open>complete\<close> (4). A run reads \<open>state.connections\<close> and
  \<open>state.messages.relays\<close> from the copy of the state it took at its start; these are
  the arrays of the application state itself, so the run sees them as they are when it
  continues. \<open>connectionData\<close> is read when the relays are sent.
\<close>

definition resumeDataExchange :: "app \<Rightarrow> connect \<times> webrtc \<Rightarrow> connect \<times> webrtc" where
  "resumeDataExchange a cw =
     (let c = fst cw; w = snd cw in
      case timers c of
        [] \<Rightarrow> cw
      | step # rest \<Rightarrow>
          if step = 1 then
            (c\<lparr>timers := rest @ [2]\<rparr>, sendConnectionsData (a_connections a) w)
          else if step = 2 then
            (c\<lparr>timers := rest @ [3]\<rparr>, sendMessagesData w)
          else if step = 3 then
            (c\<lparr>timers := rest @ [4]\<rparr>, sendRelaysData c (a_relays a) w)
          else
            (c\<lparr>timers := rest\<rparr>, fst (sendData WComplete w)))"

text \<open>The types of the five messages of a data exchange, in the order of the steps.\<close>

definition exchangeTypes :: "string list" where
  "exchangeTypes = [''profile'', ''connections'', ''messages'', ''relays'', ''complete'']"

text \<open>
  \<open>handleConnectionAnswer\<close>, up to the first suspension of the data exchange it starts.
  The second component of the result is the error the \<open>catch\<close> block received, if it
  ran.
\<close>

definition handleConnectionAnswer ::
  "env \<Rightarrow> app \<Rightarrow> connect \<times> webrtc \<Rightarrow> json \<Rightarrow> (connect \<times> webrtc) \<times> error option" where
  "handleConnectionAnswer E a cw answerData =
     (let c = fst cw; w = snd cw in
      if js_truthy (connectionData c) \<and> answerData = JNull
        then ((setStage FAILED c, w), Some TypeError)
      else if js_truthy (connectionData c) \<and>
              \<not> strict_eq (case connectionData c of None \<Rightarrow> None | Some cd \<Rightarrow> getProp cd ''did'')
                           (getProp answerData ''did'')
        then ((setStage FAILED c, w), Some DIDMismatch)
      else
        (let c1 = setStage ANSWER_SCANNED c in
         if answerData = JNull then ((setStage FAILED c1, w), Some TypeError)
         else
           (let c2 = c1\<lparr>remoteDescription := getProp answerData ''webrtc''\<rparr> in
            if \<not> finalize E (remoteDescription c2)
              then ((setStage FAILED c2, w), Some TransportError)
            else (handleDataExchange a (setStage CONNECTED c2, w), None))))"






text \<open>
  \<open>handleConnectionStateChange\<close>, the callback the WebRTC module calls with its
  connection state.
\<close>

definition handleConnectionStateChange :: "app \<Rightarrow> connect \<times> webrtc \<Rightarrow> string \<Rightarrow> connect \<times> webrtc" where
  "handleConnectionStateChange a cw st =
     (let c = fst cw; w = snd cw in
      if st = ''connected'' then
        (if connectionStage c \<noteq> CONNECTED then handleDataExchange a (setStage CONNECTED c, w)
         else cw)
      else if st = ''disconnected'' \<or> st = ''failed'' then
        (if connectionStage c \<noteq> COMPLETE \<and> connectionStage c \<noteq> FAILED
         then (setStage FAILED c, w) else cw)
      else cw)"

text \<open>
  \<open>resetConnectionState\<close>: \<open>WebRTC.closeConnection\<close> closes the channel and calls the
  state-change callback with \<open>disconnected\<close> before it returns.
\<close>

definition resetConnectionState :: "app \<Rightarrow> connect \<times> webrtc \<Rightarrow> connect \<times> webrtc" where
  "resetConnectionState a cw =
     (let c = (setStage INIT (fst cw))
                \<lparr>connectionData := None, localDescription := None, remoteDescription := None\<rparr>;
          w = closeConnection (snd cw)
      in handleConnectionStateChange a (c, w) ''disconnected'')"

fun setProp :: "string \<Rightarrow> json \<Rightarrow> json \<Rightarrow> json" where
  "setProp k v (JObj kvs) =
     JObj (if map_of kvs k = None then kvs @ [(k, v)]
           else map (\<lambda>(k', v'). if k' = k then (k', v) else (k', v')) kvs)"
| "setProp k v j = j"

definition processReceivedProfile ::
  "connect \<times> webrtc \<Rightarrow> profileFields \<Rightarrow> string option \<Rightarrow> connect \<times> webrtc" where
  "processReceivedProfile cw prof picture =
     (let c = fst cw;
          c' = (case connectionData c of
                  None \<Rightarrow> c
                | Some cd \<Rightarrow>
                    (let cd1 = setProp ''profile''
                                 (JObj (obj [(''firstName'', json_of (pf_firstName prof)),
                                             (''lastName'', json_of (pf_lastName prof)),
                                             (''nickname'', json_of (js_or (pf_nickname prof) (Some []))),
                                             (''bio'', json_of (js_or (pf_bio prof) (Some [])))])) cd;
                         cd2 = (case picture of
                                  None \<Rightarrow> cd1
                                | Some pic \<Rightarrow>
                                    if truthy picture then setProp ''profilePicture'' (JStr pic) cd1
                                    else cd1)
                     in c\<lparr>connectionData := Some cd2\<rparr>))
      in (c', fst (sendData WProfileAck (snd cw))))"

text \<open>
  \<open>completeConnection\<close> hands the connection data to \<open>App.addConnection\<close> and resets the
  module whether that succeeds or throws. Without a did the lookup in the did index
  throws; with a did that is a valid key and without a \<open>profile\<close> object the read of
  \<open>profile.firstName\<close> throws.
\<close>

definition completeConnection ::
  "env \<Rightarrow> readings \<Rightarrow> app \<Rightarrow> connect \<times> webrtc \<Rightarrow> (app \<times> connect \<times> webrtc) \<times> error option" where
  "completeConnection E rd a cw =
     (let added =
        (case connectionData (fst cw) of
           None \<Rightarrow> Inl TypeError
         | Some cd \<Rightarrow>
             (case getProp cd ''did'' of
                None \<Rightarrow> Inl DataError
              | Some d \<Rightarrow>
                  if \<not> validKey d then Inl DataError
                  else
                  (case getProp cd ''profile'' of
                     None \<Rightarrow> Inl TypeError
                   | Some pj \<Rightarrow>
                       if pj = JNull then Inl TypeError
                       else addConnection E rd a
                              \<lparr>cd_did = d,
                               cd_publicKey = str (getProp cd ''publicKey''),
                               cd_profile = \<lparr>pf_firstName = str (getProp pj ''firstName''),
                                             pf_lastName = str (getProp pj ''lastName''),
                                             pf_nickname = str (getProp pj ''nickname''),
                                             pf_bio = str (getProp pj ''bio'')\<rparr>,
                               cd_profilePicture =
                                 js_or (str (getProp cd ''profilePicture'')) None\<rparr>)))
      in case added of
           Inl e \<Rightarrow> ((a, resetConnectionState a cw), Some e)
         | Inr (a', conn) \<Rightarrow> ((a', resetConnectionState a' cw), None))"

definition handleTransferComplete ::
  "env \<Rightarrow> readings \<Rightarrow> app \<Rightarrow> connect \<times> webrtc \<Rightarrow> (app \<times> connect \<times> webrtc) \<times> error option" where
  "handleTransferComplete E rd a cw = completeConnection E rd a (setStage COMPLETE (fst cw), snd cw)"

text \<open>\<open>handleDataReceived\<close>: what the module does with a message of the data channel.\<close>

fun handleDataReceived ::
  "env \<Rightarrow> readings \<Rightarrow> app \<Rightarrow> connect \<times> webrtc \<Rightarrow> wire \<Rightarrow> app \<times> connect \<times> webrtc" where
  "handleDataReceived E rd a cw (WProfile prof d k picture) = (a, processReceivedProfile cw prof picture)"
| "handleDataReceived E rd a cw (WConnections cs) =
     (a, fst cw, fst (sendData (WConnectionsAck (length cs)) (snd cw)))"
| "handleDataReceived E rd a cw (WMessages ms) =
     (a, fst cw, fst (sendData (WMessagesAck (length ms)) (snd cw)))"
| "handleDataReceived E rd a cw (WRelays rs) =
     (a, fst cw, fst (sendData (WRelaysAck (length rs)) (snd cw)))"
| "handleDataReceived E rd a cw WComplete = fst (handleTransferComplete E rd a cw)"
| "handleDataReceived E rd a cw other = (a, cw)"

text \<open>
  What happens to the module during a session, one event at a time: the WebRTC module
  calls back with its connection state, the oldest timer of a suspended data exchange
  fires, or a message arrives on the data channel. Each event is handled up to the
  next suspension before the next event is taken, as the browser's event loop does.
\<close>

datatype event =
    StateChanged string
  | TimerFired
  | DataReceived wire

fun handleEvent ::
  "env \<Rightarrow> readings \<Rightarrow> app \<times> connect \<times> webrtc \<Rightarrow> event \<Rightarrow> app \<times> connect \<times> webrtc" where
  "handleEvent E rd (a, cw) (StateChanged st) = (a, handleConnectionStateChange a cw st)"
| "handleEvent E rd (a, cw) TimerFired = (a, resumeDataExchange a cw)"
| "handleEvent E rd (a, cw) (DataReceived msg) = handleDataReceived E rd a cw msg"

definition runEvents ::
  "env \<Rightarrow> readings \<Rightarrow> app \<times> connect \<times> webrtc \<Rightarrow> event list \<Rightarrow> app \<times> connect \<times> webrtc" where
  "runEvents E rd s es = foldl (handleEvent E rd) s es"

section \<open>Sample values\<close>

text \<open>
  One instance of the parameters and of the state, on which the model is evaluated. The
  cipher writes the passphrase, with its length in unary, in front of the text; under
  the same passphrase it gives the text back, and on anything else it yields the empty
  text without throwing, which is what CryptoJS most often does, its unpadding being
  unchecked. The hash puts a mark in front of its input.
\<close>

definition sample_identity :: identity where
  "sample_identity =
     \<lparr>i_did = ''did:cc:alice'', i_publicKey = ''#a1'', i_privateKey = ''a1'', i_created = ''2024''\<rparr>"

definition sample_env :: env where
  "sample_env =
     \<lparr>aes_encrypt = (\<lambda>salt m k. replicate (length k) CHR ''1'' @ CHR ''0'' # k @ m),
      aes_decrypt = (\<lambda>c k.
        if take (2 * length k + 1) c = replicate (length k) CHR ''1'' @ CHR ''0'' # k
        then Some (drop (2 * length k + 1) c) else Some []),
      sha256 = (\<lambda>s. CHR ''#'' # s),
      json_parse = (\<lambda>s. if s = ''{alice}'' then Some (identity_json sample_identity) else None),
      json_stringify = (\<lambda>v. if v = identity_json sample_identity then ''{alice}'' else ''{}''),
      toISOString = (\<lambda>t. ''t''),
      plusOneYear = (\<lambda>t. t + 31536000000),
      finalize = (\<lambda>d. d \<noteq> None)\<rparr>"

text \<open>
  The same parameters with a cipher that, under a passphrase other than that of the
  encryption, yields the text \<open>5\<close>: the bytes CryptoJS is left with under a wrong
  passphrase are now and then valid UTF-8, and then they come back as text. \<open>JSON.parse\<close>
  reads that text as the number 5.
\<close>

definition sample_env_5 :: env where
  "sample_env_5 =
     sample_env
       \<lparr>aes_decrypt := (\<lambda>c k.
          if take (2 * length k + 1) c = replicate (length k) CHR ''1'' @ CHR ''0'' # k
          then Some (drop (2 * length k + 1) c) else Some ''5''),
        json_parse := (\<lambda>s. if s = ''{alice}'' then Some (identity_json sample_identity)
                             else if s = ''5'' then Some (JNum 5) else None)\<rparr>"

definition sample_profile :: profile where
  "sample_profile =
     \<lparr>pr_id = ''p1'', pr_firstName = Text ''Alice'', pr_lastName = Text ''Smith'',
      pr_nickname = Undefined, pr_bio = Undefined, pr_profilePicture = None,
      pr_identity = sample_identity\<rparr>"

definition sample_connection :: connection where
  "sample_connection =
     \<lparr>c_id = ''c1'', c_did = JStr ''did:cc:bob'', c_publicKey = Some ''#b1'',
      c_firstName = Some ''Bob'', c_lastName = Some ''Jones'', c_nickname = Some ''bobby'',
      c_bio = None, c_profilePicture = Some ''img'', c_firstConnected = 5,
      c_lastConnected = 5, c_expiresOn = 31536000005, c_connectionCount = 1,
      c_backupData = ''b''\<rparr>"

definition sample_relay :: relay where
  "sample_relay =
     \<lparr>r_id = ''r1'', r_messageId = ''m1'', r_originalSenderId = ''did:cc:alice'',
      r_originalSenderName = ''Alice Smith'', r_targetRecipientId = ''did:cc:bob'',
      r_targetRecipientName = ''Bob Jones'', r_encryptedContent = ''x'', r_timestamp = 7,
      r_status = ''pending''\<rparr>"

definition sample_app :: app where
  "sample_app =
     \<lparr>a_profile = Some sample_profile, a_identity = Some sample_identity,
      a_connections = [sample_connection], a_received = [], a_sent = [],
      a_relays = [sample_relay],
      db_connections = [sample_connection], db_messages = [], db_relays = [sample_relay]\<rparr>"

definition sample_readings :: readings where
  "sample_readings =
     \<lparr>uuid = ''u1'', now_expires = 1000, now_first = 1000, now_last = 1001,
      now_backup = 1001, salt = 0\<rparr>"

definition sample_data :: connectionData where
  "sample_data =
     \<lparr>cd_did = JStr ''did:cc:bob'', cd_publicKey = Some ''#b1'',
      cd_profile = \<lparr>pf_firstName = Some ''Robert'', pf_lastName = Some [],
                    pf_nickname = None, pf_bio = Some ''hi''\<rparr>,
      cd_profilePicture = None\<rparr>"

text \<open>An offerer that shows its offer, the answer to it, and an answer to another offer.\<close>

definition sample_offer :: json where
  "sample_offer =
     JObj [(''type'', JStr ''connection''), (''did'', JStr ''did:cc:alice''),
           (''publicKey'', JStr ''#a1''),
           (''profile'', JObj [(''firstName'', JStr ''Alice''), (''lastName'', JStr ''Smith''),
                               (''nickname'', JStr []), (''bio'', JStr [])])]"

definition sample_connect :: connect where
  "sample_connect =
     \<lparr>connectionStage = OFFER_CREATED, connectionData = Some sample_offer,
      localDescription = Some (JStr ''offer-sdp''), remoteDescription = None,
      stageLog = [INIT, OFFER_CREATED], timers = []\<rparr>"

definition sample_webrtc :: webrtc where
  "sample_webrtc = \<lparr>channelOpen = [True, True, True, True, True], sent = []\<rparr>"

definition sample_answer :: "(string \<times> json) list" where
  "sample_answer =
     [(''type'', JStr ''connection_answer''), (''did'', JStr ''did:cc:alice''),
      (''webrtc'', JStr ''answer-sdp'')]"

definition sample_wrong_answer :: "(string \<times> json) list" where
  "sample_wrong_answer =
     [(''type'', JStr ''connection_answer''), (''did'', JStr ''did:cc:mallory''),
      (''webrtc'', JStr ''answer-sdp'')]"




definition sample_peer_offer :: json where
  "sample_peer_offer =
     JObj [(''type'', JStr ''connection''), (''did'', JStr ''did:cc:bob''),
           (''publicKey'', JStr ''#b1''),
           (''profile'', JObj [(''firstName'', JStr ''Bob''), (''lastName'', JStr ''Jones''),
                               (''nickname'', JStr []), (''bio'', JStr [])])]"

definition sample_answerer :: connect where
  "sample_answerer =
     \<lparr>connectionStage = ANSWER_CREATED, connectionData = Some sample_peer_offer,
      localDescription = Some (JStr ''answer-sdp''), remoteDescription = Some (JStr ''offer-sdp''),
      stageLog = [INIT, SCANNING, OFFER_SCANNED, ANSWER_CREATED], timers = []\<rparr>"

section \<open>Properties\<close>

subsection \<open>The object stores\<close>

lemma put_filter:
  "distinct (map key xs) \<Longrightarrow> \<forall>x\<in>set xs. P x \<longrightarrow> key x = key r \<Longrightarrow> P r \<Longrightarrow> filter P (put key r xs) = [r]"
proof (induction xs)
  case Nil
  then show ?case by simp
next
  case (Cons x xs)
  show ?case
  proof (cases "key x = key r")
    case True
    have "\<forall>y\<in>set xs. \<not> P y"
    proof
      fix y assume y: "y \<in> set xs"
      show "\<not> P y"
      proof
        assume "P y"
        with Cons.prems(2) y have "key y = key r" by simp
        with True have "key y = key x" by simp
        with Cons.prems(1) y show False by (auto simp: image_iff)
      qed
    qed
    then have "filter P xs = []" by (simp add: filter_empty_conv)
    with True Cons.prems(3) show ?thesis by simp
  next
    case False
    with Cons.prems(2) have "\<not> P x" by auto
    moreover have "filter P (put key r xs) = [r]"
      using Cons.IH Cons.prems by simp
    ultimately show ?thesis using False by simp
  qed
qed

lemma put_in: "r \<in> set (put key r xs)"
  by (induction xs) auto

lemma find_Some_D: "find P xs = Some x \<Longrightarrow> P x \<and> x \<in> set xs"
  by (induction xs) (auto split: if_splits)

lemma updatedConnection_frame:
  "c_id (updatedConnection E rd b ex nd) = c_id ex"
  "c_did (updatedConnection E rd b ex nd) = c_did ex"
  "c_firstConnected (updatedConnection E rd b ex nd) = c_firstConnected ex"
  by (simp_all add: updatedConnection_def Let_def)

lemma updatedConnection_fields:
  "c_publicKey (updatedConnection E rd b ex nd) = js_or (cd_publicKey nd) (c_publicKey ex)"
  "c_firstName (updatedConnection E rd b ex nd) = js_or (pf_firstName (cd_profile nd)) (c_firstName ex)"
  "c_lastName (updatedConnection E rd b ex nd) = js_or (pf_lastName (cd_profile nd)) (c_lastName ex)"
  "c_nickname (updatedConnection E rd b ex nd) = js_or (pf_nickname (cd_profile nd)) (c_nickname ex)"
  "c_bio (updatedConnection E rd b ex nd) = js_or (pf_bio (cd_profile nd)) (c_bio ex)"
  "c_profilePicture (updatedConnection E rd b ex nd) = js_or (cd_profilePicture nd) (c_profilePicture ex)"
  "c_lastConnected (updatedConnection E rd b ex nd) = now_last rd"
  "c_expiresOn (updatedConnection E rd b ex nd) = plusOneYear E (now_expires rd)"
  "c_connectionCount (updatedConnection E rd b ex nd) = c_connectionCount ex + 1"
  "c_backupData (updatedConnection E rd b ex nd) = b"
  by (simp_all add: updatedConnection_def Let_def js_or_def)

lemma updateExistingConnection_Inr:
  assumes "updateExistingConnection E rd s ex nd = Inr (s', c')"
  shows "\<exists>b. backupData E rd s = Inr b \<and> c' = updatedConnection E rd b ex nd \<and>
             saveConnection c' (db_connections s) = Inr (db_connections s') \<and>
             a_connections s' = replaceFirst (\<lambda>c. c_id c = c_id c') c' (a_connections s) \<and>
             a_relays s' = a_relays s \<and> db_relays s' = db_relays s \<and>
             a_received s' = a_received s \<and> db_messages s' = db_messages s"
  using assms
  by (auto simp: updateExistingConnection_def Let_def split: sum.splits)

lemma saveConnection_Inr:
  "saveConnection c db = Inr db' \<Longrightarrow>
     db' = put c_id c db \<and>
     (validKey (c_did c) \<longrightarrow> (\<forall>x\<in>set db. c_did x = c_did c \<longrightarrow> c_id x = c_id c))"
  by (auto simp: saveConnection_def list_ex_iff split: if_splits)

subsection \<open>Frame of the update of a connection\<close>

text \<open>
  C10. When \<open>updateExistingConnection\<close> returns, the record it returns and saves has
  the \<open>id\<close>, the \<open>did\<close> and the \<open>firstConnected\<close> of the existing record, and the
  existing \<open>profilePicture\<close> when the incoming data carries no picture; every other
  field may have changed.
\<close>

theorem updateExistingConnection_frame:
  assumes "updateExistingConnection E rd s existingConnection newData = Inr (s', c')"
  shows "c_id c' = c_id existingConnection \<and>
         c_did c' = c_did existingConnection \<and>
         c_firstConnected c' = c_firstConnected existingConnection \<and>
         (\<not> truthy (cd_profilePicture newData) \<longrightarrow>
            c_profilePicture c' = c_profilePicture existingConnection) \<and>
         c' \<in> set (db_connections s')"
proof -
  from updateExistingConnection_Inr [OF assms] obtain b where
    c': "c' = updatedConnection E rd b existingConnection newData" and
    sv: "saveConnection c' (db_connections s) = Inr (db_connections s')"
    by blast
  from saveConnection_Inr [OF sv] have "c' \<in> set (db_connections s')"
    by (simp add: put_in)
  then show ?thesis
    by (simp add: c' updatedConnection_frame updatedConnection_fields js_or_def)
qed

text \<open>The sample connection, updated from data without a picture.\<close>

theorem updateExistingConnection_frame_witness:
  "\<exists>s' c'. updateExistingConnection sample_env sample_readings sample_app sample_connection sample_data
             = Inr (s', c') \<and>
     c_id c' = ''c1'' \<and> c_did c' = JStr ''did:cc:bob'' \<and> c_firstConnected c' = 5 \<and>
     c_profilePicture c' = Some ''img'' \<and> c' \<in> set (db_connections s')"
proof -
  have b: "backupData sample_env sample_readings sample_app = Inr ''1110#a1{}''"
    by (simp add: backupData_def sample_app_def sample_env_def sample_readings_def
      createBackupData_def encryptMessage_def sample_identity_def sample_profile_def
      identity_json_def Let_def)
  have "\<exists>s' c'. updateExistingConnection sample_env sample_readings sample_app sample_connection sample_data
             = Inr (s', c')"
  proof -
    have "saveConnection (updatedConnection sample_env sample_readings ''1110#a1{}'' sample_connection sample_data)
            (db_connections sample_app)
          = Inr [updatedConnection sample_env sample_readings ''1110#a1{}'' sample_connection sample_data]"
      by (simp add: saveConnection_def sample_app_def updatedConnection_frame)
    then show ?thesis
      by (simp add: updateExistingConnection_def b Let_def)
  qed
  then obtain s' c' where u: "updateExistingConnection sample_env sample_readings sample_app sample_connection sample_data
             = Inr (s', c')" by blast
  have nt: "\<not> truthy (cd_profilePicture sample_data)"
    by (simp add: sample_data_def truthy_def)
  from updateExistingConnection_frame [OF u] nt
  have "c_id c' = ''c1'' \<and> c_did c' = JStr ''did:cc:bob'' \<and> c_firstConnected c' = 5 \<and>
     c_profilePicture c' = Some ''img'' \<and> c' \<in> set (db_connections s')"
    by (simp add: sample_connection_def)
  with u show ?thesis by blast
qed

lemma createNewConnection_Inr:
  assumes "createNewConnection E rd s cd = Inr (s', c')"
  shows "saveConnection c' (db_connections s) = Inr (db_connections s') \<and>
         c_did c' = cd_did cd \<and> c_connectionCount c' = 1 \<and>
         c_lastConnected c' = now_last rd \<and> c_firstConnected c' = now_first rd \<and>
         c_expiresOn c' = plusOneYear E (now_expires rd)"
  using assms
  by (auto simp: createNewConnection_def Let_def split: sum.splits)

lemma saved_is_only_record:
  assumes "distinct (map c_id db)" and "saveConnection c db = Inr db'" and "validKey (c_did c)"
  shows "filter (\<lambda>x. c_did x = c_did c) db' = [c]"
proof -
  from saveConnection_Inr [OF assms(2)] assms(3)
  have db': "db' = put c_id c db" and only: "\<forall>x\<in>set db. c_did x = c_did c \<longrightarrow> c_id x = c_id c"
    by simp_all
  show ?thesis
    unfolding db' by (rule put_filter [OF assms(1) only]) simp
qed

subsection \<open>Handshaking again with a known did\<close>

text \<open>
  C4, as the code has it. When \<open>addConnection\<close> succeeds on a store whose keys are
  distinct, the store holds exactly one record with the did, the one returned. Its
  \<open>lastConnected\<close> is the clock as read for that field and its \<open>expiresOn\<close> is one
  year after the clock as read at the start of the call, at creation and at every
  update. When a record with the did existed, the record keeps its id, its
  \<open>connectionCount\<close> is the old count plus one, and each of the profile fields, the public
  key and the picture is the incoming value when that is truthy and the stored value
  otherwise.
\<close>

theorem addConnection_rehandshake:
  assumes "distinct (map c_id (db_connections s))"
    and "addConnection E rd s cd = Inr (s', c')"
  shows "filter (\<lambda>x. c_did x = cd_did cd) (db_connections s') = [c'] \<and>
         c_lastConnected c' = now_last rd \<and>
         c_expiresOn c' = plusOneYear E (now_expires rd) \<and>
         (case getConnectionByDID (cd_did cd) (db_connections s) of
            None \<Rightarrow> c_connectionCount c' = 1
          | Some ex \<Rightarrow>
              c_id c' = c_id ex \<and>
              c_connectionCount c' = c_connectionCount ex + 1 \<and>
              c_firstName c' = (if truthy (pf_firstName (cd_profile cd))
                                then pf_firstName (cd_profile cd) else c_firstName ex) \<and>
              c_lastName c' = (if truthy (pf_lastName (cd_profile cd))
                               then pf_lastName (cd_profile cd) else c_lastName ex) \<and>
              c_nickname c' = (if truthy (pf_nickname (cd_profile cd))
                               then pf_nickname (cd_profile cd) else c_nickname ex) \<and>
              c_bio c' = (if truthy (pf_bio (cd_profile cd))
                          then pf_bio (cd_profile cd) else c_bio ex) \<and>
              c_publicKey c' = (if truthy (cd_publicKey cd)
                                then cd_publicKey cd else c_publicKey ex) \<and>
              c_profilePicture c' = (if truthy (cd_profilePicture cd)
                                     then cd_profilePicture cd else c_profilePicture ex))"
proof (cases "getConnectionByDID (cd_did cd) (db_connections s)")
  case None
  from assms(2) have vk: "validKey (cd_did cd)"
    by (auto simp: addConnection_def split: if_splits)
  with None assms(2) have cr: "createNewConnection E rd s cd = Inr (s', c')"
    by (simp add: addConnection_def)
  from createNewConnection_Inr [OF cr] vk have "validKey (c_did c')" by simp
  with createNewConnection_Inr [OF cr] saved_is_only_record [OF assms(1)]
  have "filter (\<lambda>x. c_did x = c_did c') (db_connections s') = [c']" by blast
  with createNewConnection_Inr [OF cr] None show ?thesis by simp
next
  case (Some ex)
  from assms(2) have vk: "validKey (cd_did cd)"
    by (auto simp: addConnection_def split: if_splits)
  with Some assms(2) have up: "updateExistingConnection E rd s ex cd = Inr (s', c')"
    by (simp add: addConnection_def)
  from updateExistingConnection_Inr [OF up] obtain b where
    c': "c' = updatedConnection E rd b ex cd" and
    sv: "saveConnection c' (db_connections s) = Inr (db_connections s')"
    by blast
  from Some have "c_did ex = cd_did cd"
    by (auto simp: getConnectionByDID_def dest: find_Some_D)
  then have did: "c_did c' = cd_did cd"
    by (simp add: c' updatedConnection_frame)
  from saved_is_only_record [OF assms(1) sv] did vk
  have "filter (\<lambda>x. c_did x = cd_did cd) (db_connections s') = [c']" by simp
  then show ?thesis
    by (simp add: Some c' updatedConnection_frame updatedConnection_fields js_or_def)
qed

lemma sample_backup:
  "backupData sample_env sample_readings sample_app = Inr ''1110#a1{}''"
  by (simp add: backupData_def sample_app_def sample_env_def sample_readings_def
      createBackupData_def encryptMessage_def sample_identity_def sample_profile_def
      identity_json_def Let_def)

lemma sample_update:
  "updateExistingConnection sample_env sample_readings sample_app sample_connection sample_data
     = Inr (sample_app
             \<lparr>db_connections := [updatedConnection sample_env sample_readings ''1110#a1{}'' sample_connection sample_data],
              a_connections := [updatedConnection sample_env sample_readings ''1110#a1{}'' sample_connection sample_data]\<rparr>,
            updatedConnection sample_env sample_readings ''1110#a1{}'' sample_connection sample_data)"
proof -
  have "saveConnection (updatedConnection sample_env sample_readings ''1110#a1{}'' sample_connection sample_data)
            (db_connections sample_app)
          = Inr [updatedConnection sample_env sample_readings ''1110#a1{}'' sample_connection sample_data]"
    by (simp add: saveConnection_def sample_app_def updatedConnection_frame)
  moreover have "replaceFirst (\<lambda>c. c_id c = c_id sample_connection)
       (updatedConnection sample_env sample_readings ''1110#a1{}'' sample_connection sample_data)
       (a_connections sample_app)
     = [updatedConnection sample_env sample_readings ''1110#a1{}'' sample_connection sample_data]"
    by (simp add: sample_app_def)
  ultimately show ?thesis
    by (simp add: updateExistingConnection_def sample_backup Let_def updatedConnection_frame)
qed

lemma sample_add:
  "addConnection sample_env sample_readings sample_app sample_data
     = Inr (sample_app
             \<lparr>db_connections := [updatedConnection sample_env sample_readings ''1110#a1{}'' sample_connection sample_data],
              a_connections := [updatedConnection sample_env sample_readings ''1110#a1{}'' sample_connection sample_data]\<rparr>,
            updatedConnection sample_env sample_readings ''1110#a1{}'' sample_connection sample_data)"
proof -
  have "getConnectionByDID (cd_did sample_data) (db_connections sample_app) = Some sample_connection"
    by (simp add: getConnectionByDID_def sample_data_def sample_app_def sample_connection_def)
  moreover have "validKey (cd_did sample_data)"
    by (simp add: sample_data_def)
  ultimately show ?thesis by (simp add: addConnection_def sample_update)
qed

text \<open>
  C4, as the claim has it, fails: the expiry date and \<open>lastConnected\<close> come from two
  readings of the clock. With the readings 1000 and 1001 the updated sample record
  expires one year after 1000, not one year after its \<open>lastConnected\<close>.
\<close>

theorem expiry_is_not_lastConnected_plus_one_year:
  "case addConnection sample_env sample_readings sample_app sample_data of
     Inl e \<Rightarrow> False
   | Inr (s', c') \<Rightarrow>
       getConnectionByDID (cd_did sample_data) (db_connections sample_app) = Some sample_connection \<and>
       c_lastConnected c' = 1001 \<and> c_expiresOn c' = 31536001000 \<and>
       c_expiresOn c' \<noteq> plusOneYear sample_env (c_lastConnected c')"
proof -
  have "getConnectionByDID (cd_did sample_data) (db_connections sample_app) = Some sample_connection"
    by (simp add: getConnectionByDID_def sample_data_def sample_app_def sample_connection_def)
  then show ?thesis
    unfolding sample_add
    by (simp add: updatedConnection_fields sample_readings_def sample_env_def)
qed

text \<open>The sample store after a second handshake with the sample did.\<close>

theorem addConnection_rehandshake_witness:
  "filter (\<lambda>x. c_did x = JStr ''did:cc:bob'')
     (db_connections (fst (projr (addConnection sample_env sample_readings sample_app sample_data))))
     = [snd (projr (addConnection sample_env sample_readings sample_app sample_data))] \<and>
   c_connectionCount (snd (projr (addConnection sample_env sample_readings sample_app sample_data))) = 2 \<and>
   c_firstName (snd (projr (addConnection sample_env sample_readings sample_app sample_data))) = Some ''Robert'' \<and>
   c_lastName (snd (projr (addConnection sample_env sample_readings sample_app sample_data))) = Some ''Jones'' \<and>
   c_nickname (snd (projr (addConnection sample_env sample_readings sample_app sample_data))) = Some ''bobby''"
proof -
  have d: "distinct (map c_id (db_connections sample_app))"
    by (simp add: sample_app_def)
  have g: "getConnectionByDID (cd_did sample_data) (db_connections sample_app) = Some sample_connection"
    by (simp add: getConnectionByDID_def sample_data_def sample_app_def sample_connection_def)
  from addConnection_rehandshake [OF d sample_add]
  show ?thesis
    unfolding sample_add g
    by (simp add: sample_data_def sample_connection_def truthy_def)
qed

subsection \<open>The answer's did\<close>

lemma handleDataExchange_log:
  "stageLog (fst (handleDataExchange a (c, w)))
     = stageLog c @ EXCHANGING # (if a_profile a = None then [FAILED] else [])"
  by (simp add: handleDataExchange_def setStage_def Let_def split: option.splits)

lemma handleDataExchange_stage:
  "connectionStage (fst (handleDataExchange a (c, w)))
     = (if a_profile a = None then FAILED else EXCHANGING)"
  by (simp add: handleDataExchange_def setStage_def Let_def split: option.splits)

text \<open>
  C2. The offerer holds its own offer payload, whose did is the string \<open>d\<close>, and
  processes a scanned answer object. When the answer's did is not \<open>d\<close>, the \<open>catch\<close>
  block receives the did-mismatch error, the stage becomes \<open>FAILED\<close>, and \<open>FAILED\<close> is
  the only stage assigned during the call. When the answer's did is \<open>d\<close> and the
  transport accepts the answer, the stages assigned are \<open>ANSWER_SCANNED\<close>, \<open>CONNECTED\<close>
  and then those of the data exchange.
\<close>

theorem handleConnectionAnswer_did_check:
  assumes "connectionData c = Some (JObj offer)"
    and "map_of offer ''did'' = Some (JStr d)"
  shows "(map_of answer ''did'' \<noteq> Some (JStr d) \<longrightarrow>
            handleConnectionAnswer E a (c, w) (JObj answer)
              = ((setStage FAILED c, w), Some DIDMismatch) \<and>
            connectionStage (setStage FAILED c) = FAILED \<and>
            stageLog (setStage FAILED c) = stageLog c @ [FAILED]) \<and>
         (map_of answer ''did'' = Some (JStr d) \<and> finalize E (map_of answer ''webrtc'') \<longrightarrow>
            snd (handleConnectionAnswer E a (c, w) (JObj answer)) = None \<and>
            stageLog (fst (fst (handleConnectionAnswer E a (c, w) (JObj answer))))
              = stageLog c @ ANSWER_SCANNED # CONNECTED # EXCHANGING #
                  (if a_profile a = None then [FAILED] else []))"
proof (intro conjI impI)
  assume ne: "map_of answer ''did'' \<noteq> Some (JStr d)"
  then have "\<not> strict_eq (Some (JStr d)) (map_of answer ''did'')"
    by (simp add: strict_eq_def)
  then show "handleConnectionAnswer E a (c, w) (JObj answer)
              = ((setStage FAILED c, w), Some DIDMismatch)"
    using assms by (simp add: handleConnectionAnswer_def Let_def)
next
  show "connectionStage (setStage FAILED c) = FAILED"
    by (simp add: setStage_def)
next
  show "stageLog (setStage FAILED c) = stageLog c @ [FAILED]"
    by (simp add: setStage_def)
next
  assume ok: "map_of answer ''did'' = Some (JStr d) \<and> finalize E (map_of answer ''webrtc'')"
  then have eq: "strict_eq (Some (JStr d)) (map_of answer ''did'')"
    by (simp add: strict_eq_def)
  have run: "handleConnectionAnswer E a (c, w) (JObj answer)
      = (handleDataExchange a
           (setStage CONNECTED
              ((setStage ANSWER_SCANNED c)\<lparr>remoteDescription := map_of answer ''webrtc''\<rparr>), w),
         None)"
    using assms ok eq by (simp add: handleConnectionAnswer_def Let_def)
  show "snd (handleConnectionAnswer E a (c, w) (JObj answer)) = None"
    by (simp add: run)
  show "stageLog (fst (fst (handleConnectionAnswer E a (c, w) (JObj answer))))
      = stageLog c @ ANSWER_SCANNED # CONNECTED # EXCHANGING #
          (if a_profile a = None then [FAILED] else [])"
    by (simp add: run handleDataExchange_log) (simp add: setStage_def)
qed

text \<open>The sample offerer scans an answer to another offer, then the answer to its own.\<close>

theorem handleConnectionAnswer_did_check_witness:
  "handleConnectionAnswer sample_env sample_app (sample_connect, sample_webrtc)
       (JObj sample_wrong_answer)
     = ((setStage FAILED sample_connect, sample_webrtc), Some DIDMismatch) \<and>
   stageLog (setStage FAILED sample_connect) = [INIT, OFFER_CREATED, FAILED] \<and>
   snd (handleConnectionAnswer sample_env sample_app (sample_connect, sample_webrtc)
          (JObj sample_answer)) = None \<and>
   stageLog (fst (fst (handleConnectionAnswer sample_env sample_app
                         (sample_connect, sample_webrtc) (JObj sample_answer))))
     = [INIT, OFFER_CREATED, ANSWER_SCANNED, CONNECTED, EXCHANGING]"
proof -
  have cd: "connectionData sample_connect = Some (JObj
     [(''type'', JStr ''connection''), (''did'', JStr ''did:cc:alice''),
      (''publicKey'', JStr ''#a1''),
      (''profile'', JObj [(''firstName'', JStr ''Alice''), (''lastName'', JStr ''Smith''),
                          (''nickname'', JStr []), (''bio'', JStr [])])])"
    by (simp add: sample_connect_def sample_offer_def)
  have d: "map_of [(''type'', JStr ''connection''), (''did'', JStr ''did:cc:alice''),
      (''publicKey'', JStr ''#a1''),
      (''profile'', JObj [(''firstName'', JStr ''Alice''), (''lastName'', JStr ''Smith''),
                          (''nickname'', JStr []), (''bio'', JStr [])])] ''did''
           = Some (JStr ''did:cc:alice'')"
    by simp
  have wrong: "map_of sample_wrong_answer ''did'' \<noteq> Some (JStr ''did:cc:alice'')"
    by (simp add: sample_wrong_answer_def)
  have right: "map_of sample_answer ''did'' = Some (JStr ''did:cc:alice'') \<and>
               finalize sample_env (map_of sample_answer ''webrtc'')"
    by (simp add: sample_answer_def sample_env_def)
  have p: "a_profile sample_app \<noteq> None"
    by (simp add: sample_app_def)
  have l: "stageLog sample_connect = [INIT, OFFER_CREATED]"
    by (simp add: sample_connect_def)
  from handleConnectionAnswer_did_check [OF cd d, of sample_wrong_answer sample_env sample_app sample_webrtc]
       handleConnectionAnswer_did_check [OF cd d, of sample_answer sample_env sample_app sample_webrtc]
       wrong right p l
  show ?thesis by simp
qed

subsection \<open>Dispatch of a scanned code\<close>





subsection \<open>Order of the data exchange\<close>

lemma sendData_open:
  "channelOpen w = True # bs \<Longrightarrow> fst (sendData d w) = w\<lparr>channelOpen := bs, sent := sent w @ [d]\<rparr>"
  by (simp add: sendData_def)

lemma sendData_closed:
  "channelOpen w = False # bs \<Longrightarrow> fst (sendData d w) = w\<lparr>channelOpen := bs\<rparr>"
  by (simp add: sendData_def)

text \<open>
  A run of \<open>handleDataExchange\<close> that nothing else interleaves with, on an open channel,
  sends the five messages in the order of the steps.
\<close>

lemma single_run_order:
  assumes "a_profile a = Some p" and "timers c = []" and "connectionStage c \<noteq> CONNECTED"
    and "channelOpen w = True # True # True # True # True # bs"
  shows "map wire_type (sent (snd (snd (runEvents E rd (a, c, w)
           [StateChanged ''connected'', TimerFired, TimerFired, TimerFired, TimerFired]))))
         = map wire_type (sent w) @ exchangeTypes"
  using assms
  by (simp add: runEvents_def handleConnectionStateChange_def handleDataExchange_def
      resumeDataExchange_def setStage_def Let_def sendProfileData_def sendConnectionsData_def
      sendMessagesData_def sendRelaysData_def sendData_open exchangeTypes_def)

text \<open>
  C8 at the sample device as answerer. The WebRTC module reports \<open>connected\<close> twice in
  a session, once when the peer connection's state changes and once when the data
  channel opens. \<open>handleConnectionStateChange\<close> starts a data exchange unless the
  stage is \<open>CONNECTED\<close>, and the exchange sets the stage to \<open>EXCHANGING\<close> at once, so
  the second report starts a second exchange while the first is suspended in its
  first timer. The channel is not yet open at the first report and drops the first
  profile message. The session hands nine messages to the channel, the steps of the
  two runs alternating, and \<open>complete\<close> is sent twice.
\<close>

theorem two_connected_reports_start_two_exchanges:
  "map wire_type (sent (snd (snd (runEvents sample_env sample_readings
       (sample_app, sample_answerer,
        sample_webrtc\<lparr>channelOpen := [False, True, True, True, True, True, True, True, True, True]\<rparr>)
       [StateChanged ''connected'', StateChanged ''connected'',
        TimerFired, TimerFired, TimerFired, TimerFired,
        TimerFired, TimerFired, TimerFired, TimerFired]))))
     = [''profile'', ''connections'', ''connections'', ''messages'', ''messages'',
        ''relays'', ''relays'', ''complete'', ''complete'']"
  by (simp add: runEvents_def handleConnectionStateChange_def handleDataExchange_def
      resumeDataExchange_def setStage_def Let_def sendProfileData_def sendConnectionsData_def
      sendMessagesData_def sendRelaysData_def sendData_def sample_app_def sample_answerer_def
      sample_webrtc_def)

subsection \<open>Items that do not decrypt\<close>



lemma receiveLoop_identity:
  "a_identity (fst (receiveLoop E s ms)) = a_identity s"
  by (induction E s ms rule: receiveLoop.induct)
     (auto simp: Let_def saveMessage_def split: option.splits sum.splits)














subsection \<open>Processing an inbound id twice\<close>


















subsection \<open>Relay records and sessions\<close>

lemma addConnection_relays:
  "addConnection E rd s cd = Inr (s', c) \<Longrightarrow> a_relays s' = a_relays s \<and> db_relays s' = db_relays s"
  by (auto simp: addConnection_def createNewConnection_def updateExistingConnection_def Let_def
      split: option.splits sum.splits if_splits)

lemma completeConnection_relays:
  "a_relays (fst (fst (completeConnection E rd a cw))) = a_relays a \<and>
   db_relays (fst (fst (completeConnection E rd a cw))) = db_relays a"
  by (auto simp: completeConnection_def Let_def dest: addConnection_relays
      split: option.splits sum.splits)

text \<open>No message of the data channel makes the Connect module change a relay record.\<close>

lemma handleDataReceived_relays:
  "a_relays (fst (handleDataReceived E rd a cw msg)) = a_relays a \<and>
   db_relays (fst (handleDataReceived E rd a cw msg)) = db_relays a"
  by (cases msg) (simp_all add: handleTransferComplete_def completeConnection_relays)

text \<open>No event of a session does, whatever the events and their order.\<close>

lemma handleEvent_relays:
  "a_relays (fst (handleEvent E rd s ev)) = a_relays (fst s) \<and>
   db_relays (fst (handleEvent E rd s ev)) = db_relays (fst s)"
proof -
  obtain a cw where s: "s = (a, cw)" by (cases s)
  show ?thesis
    unfolding s by (cases ev) (simp_all add: handleDataReceived_relays)
qed

lemma runEvents_relays:
  "a_relays (fst (runEvents E rd s es)) = a_relays (fst s) \<and>
   db_relays (fst (runEvents E rd s es)) = db_relays (fst s)"
  unfolding runEvents_def
proof (induction es arbitrary: s)
  case Nil
  show ?case by simp
next
  case (Cons ev es)
  show ?case
    using Cons [of "handleEvent E rd s ev"] handleEvent_relays [of E rd s ev]
    by simp
qed

lemma deliverLoop_relays:
  "a_relays (fst (deliverLoop u t k s rs acc))
     = filter (\<lambda>x. r_id x \<notin> r_id ` set rs) (a_relays s) \<and>
   db_relays (fst (deliverLoop u t k s rs acc))
     = filter (\<lambda>x. r_id x \<notin> r_id ` set rs) (db_relays s)"
proof (induction rs arbitrary: k s acc)
  case Nil
  then show ?case by simp
next
  case (Cons r rs)
  show ?case
    by (simp add: Let_def Cons.IH deleteRelay_def delete_def)
qed

text \<open>
  \<open>App.processRelaysForConnection\<close> does what the claim describes: on a state whose
  relay records have distinct ids and are the same in the store and in memory, it
  deletes exactly the records whose target is the connection's did. No function of
  the repository calls it.
\<close>

lemma processRelaysForConnection_deletes:
  assumes "distinct (map r_id (a_relays s))" and "db_relays s = a_relays s"
  shows "a_relays (fst (processRelaysForConnection u t s conn))
           = filter (\<lambda>r. JStr (r_targetRecipientId r) \<noteq> c_did conn) (a_relays s) \<and>
         db_relays (fst (processRelaysForConnection u t s conn))
           = filter (\<lambda>r. JStr (r_targetRecipientId r) \<noteq> c_did conn) (db_relays s)"
proof -
  let ?P = "\<lambda>r. JStr (r_targetRecipientId r) = c_did conn"
  have inj: "inj_on r_id (set (a_relays s))"
    using assms(1) by (simp add: distinct_map)
  have key: "(r_id x \<notin> r_id ` set (filter ?P (a_relays s))) = (\<not> ?P x)"
    if x: "x \<in> set (a_relays s)" for x
  proof -
    have "r_id x \<in> r_id ` set (filter ?P (a_relays s)) \<longleftrightarrow> ?P x"
    proof
      assume "r_id x \<in> r_id ` set (filter ?P (a_relays s))"
      then obtain y where y: "y \<in> set (a_relays s)" "?P y" "r_id x = r_id y" by auto
      from inj y(3) x y(1) have "x = y" by (rule inj_onD)
      with y(2) show "?P x" by simp
    next
      assume "?P x"
      with x show "r_id x \<in> r_id ` set (filter ?P (a_relays s))" by simp
    qed
    then show ?thesis by simp
  qed
  have f: "filter (\<lambda>x. r_id x \<notin> r_id ` set (filter ?P (a_relays s))) (a_relays s)
             = filter (\<lambda>r. \<not> ?P r) (a_relays s)"
    by (rule filter_cong [OF refl]) (rule key)
  show ?thesis
  proof (cases "filter ?P (a_relays s) = []")
    case True
    then have "\<forall>x\<in>set (a_relays s). \<not> ?P x" by (simp add: filter_empty_conv)
    then have "filter (\<lambda>r. \<not> ?P r) (a_relays s) = a_relays s" by simp
    with True assms(2) show ?thesis by (simp add: processRelaysForConnection_def)
  next
    case False
    then show ?thesis
      using f assms(2) by (simp add: processRelaysForConnection_def deliverLoop_relays Let_def)
  qed
qed

text \<open>
  C3 at the sample device as answerer, holding a relay record for the peer's did
  \<open>did:cc:bob\<close>. The channel opens, \<open>handleDataExchange\<close> sends the record in its relays
  message, one step after each timer, the peer's acknowledgement and its \<open>complete\<close>
  arrive, and the connection is committed: its count of handshakes goes from 1 to 2.
  The relay record is still in the store and in memory.
\<close>

theorem relay_for_peer_survives_session:
  "WRelays [sample_relay]
     \<in> set (sent (snd (snd (runEvents sample_env sample_readings
                (sample_app, sample_answerer, sample_webrtc)
                [StateChanged ''connected'', TimerFired, TimerFired, TimerFired, TimerFired,
                 DataReceived (WRelaysAck 1), DataReceived WComplete])))) \<and>
   r_targetRecipientId sample_relay = ''did:cc:bob'' \<and>
   getProp sample_peer_offer ''did'' = Some (JStr ''did:cc:bob'') \<and>
   map c_connectionCount (db_connections (fst (runEvents sample_env sample_readings
       (sample_app, sample_answerer, sample_webrtc)
       [StateChanged ''connected'', TimerFired, TimerFired, TimerFired, TimerFired,
        DataReceived (WRelaysAck 1), DataReceived WComplete]))) = [2] \<and>
   db_relays (fst (runEvents sample_env sample_readings
       (sample_app, sample_answerer, sample_webrtc)
       [StateChanged ''connected'', TimerFired, TimerFired, TimerFired, TimerFired,
        DataReceived (WRelaysAck 1), DataReceived WComplete])) = [sample_relay] \<and>
   a_relays (fst (runEvents sample_env sample_readings
       (sample_app, sample_answerer, sample_webrtc)
       [StateChanged ''connected'', TimerFired, TimerFired, TimerFired, TimerFired,
        DataReceived (WRelaysAck 1), DataReceived WComplete])) = [sample_relay]"
proof -
  define w5 where "w5 = snd (snd (runEvents sample_env sample_readings
       (sample_app, sample_answerer, sample_webrtc)
       [StateChanged ''connected'', TimerFired, TimerFired, TimerFired, TimerFired]))"
  define c5 where "c5 = fst (snd (runEvents sample_env sample_readings
       (sample_app, sample_answerer, sample_webrtc)
       [StateChanged ''connected'', TimerFired, TimerFired, TimerFired, TimerFired]))"
  have a5: "fst (runEvents sample_env sample_readings
       (sample_app, sample_answerer, sample_webrtc)
       [StateChanged ''connected'', TimerFired, TimerFired, TimerFired, TimerFired]) = sample_app"
    by (simp add: runEvents_def)
  have five: "runEvents sample_env sample_readings
       (sample_app, sample_answerer, sample_webrtc)
       [StateChanged ''connected'', TimerFired, TimerFired, TimerFired, TimerFired]
       = (sample_app, c5, w5)"
    using a5 by (simp add: c5_def w5_def prod_eq_iff)
  have sent5: "WRelays [sample_relay] \<in> set (sent w5)"
    unfolding w5_def
    by (simp add: runEvents_def handleConnectionStateChange_def sample_answerer_def
        handleDataExchange_def resumeDataExchange_def
        sample_app_def Let_def sendProfileData_def sendConnectionsData_def sendMessagesData_def
        sendRelaysData_def sample_webrtc_def sendData_def setStage_def sample_peer_offer_def
        strict_eq_def sample_relay_def)
  have cd5: "connectionData c5 = Some sample_peer_offer"
    unfolding c5_def
    by (simp add: runEvents_def handleConnectionStateChange_def sample_answerer_def
        handleDataExchange_def resumeDataExchange_def
        sample_app_def Let_def setStage_def)
  have split: "runEvents sample_env sample_readings
       (sample_app, sample_answerer, sample_webrtc)
       [StateChanged ''connected'', TimerFired, TimerFired, TimerFired, TimerFired,
        DataReceived (WRelaysAck 1), DataReceived WComplete]
     = fst (completeConnection sample_env sample_readings sample_app (setStage COMPLETE c5, w5))"
  proof -
    have "runEvents sample_env sample_readings
       (sample_app, sample_answerer, sample_webrtc)
       ([StateChanged ''connected'', TimerFired, TimerFired, TimerFired, TimerFired] @
        [DataReceived (WRelaysAck 1), DataReceived WComplete])
     = fst (completeConnection sample_env sample_readings sample_app (setStage COMPLETE c5, w5))"
      unfolding runEvents_def foldl_append
      unfolding runEvents_def [symmetric] five
      by (simp add: runEvents_def handleTransferComplete_def)
    then show ?thesis by simp
  qed
  define cd where "cd =
                 \<lparr>cd_did = JStr ''did:cc:bob'', cd_publicKey = Some ''#b1'',
                  cd_profile = \<lparr>pf_firstName = Some ''Bob'', pf_lastName = Some ''Jones'',
                                pf_nickname = Some [], pf_bio = Some []\<rparr>,
                  cd_profilePicture = None\<rparr>"
  define U where "U = updatedConnection sample_env sample_readings ''1110#a1{}'' sample_connection cd"
  have sv: "saveConnection U (db_connections sample_app) = Inr [U]"
    by (simp add: U_def saveConnection_def sample_app_def updatedConnection_frame)
  have rp: "replaceFirst (\<lambda>c. c_id c = c_id sample_connection) U (a_connections sample_app) = [U]"
    by (simp add: sample_app_def)
  have upd: "updateExistingConnection sample_env sample_readings sample_app sample_connection cd
     = Inr (sample_app\<lparr>db_connections := [U], a_connections := [U]\<rparr>, U)"
    using sv rp
    by (simp add: updateExistingConnection_def sample_backup Let_def U_def [symmetric])
      (simp add: U_def updatedConnection_frame)
  have g: "getConnectionByDID (cd_did cd) (db_connections sample_app) = Some sample_connection"
    by (simp add: getConnectionByDID_def cd_def sample_app_def sample_connection_def)
  have vk: "validKey (cd_did cd)"
    by (simp add: cd_def)
  have added: "addConnection sample_env sample_readings sample_app cd
     = Inr (sample_app\<lparr>db_connections := [U], a_connections := [U]\<rparr>, U)"
    using g vk by (simp add: addConnection_def upd)
  have cU: "c_connectionCount U = 2"
    by (simp add: U_def updatedConnection_fields sample_connection_def)
  have count: "map c_connectionCount (db_connections (fst (fst
        (completeConnection sample_env sample_readings sample_app (setStage COMPLETE c5, w5))))) = [2]"
    using added cU
    by (simp add: completeConnection_def cd5 setStage_def sample_peer_offer_def Let_def js_or_def
        truthy_def cd_def str_def)
  have rel: "a_relays sample_app = [sample_relay]" "db_relays sample_app = [sample_relay]"
    by (simp_all add: sample_app_def)
  have t: "r_targetRecipientId sample_relay = ''did:cc:bob''"
    by (simp add: sample_relay_def)
  have d: "getProp sample_peer_offer ''did'' = Some (JStr ''did:cc:bob'')"
    by (simp add: sample_peer_offer_def)
  have sentf: "sent (snd (snd (fst (completeConnection sample_env sample_readings sample_app
                  (setStage COMPLETE c5, w5))))) = sent w5"
    by (simp add: completeConnection_def resetConnectionState_def handleConnectionStateChange_def
        closeConnection_def setStage_def Let_def split: option.splits sum.splits)
  show ?thesis
    unfolding split
    by (simp only: completeConnection_relays rel sentf sent5 t d count simp_thms)
qed

subsection \<open>Encryption under the public key\<close>

lemma sample_cipher_round_trip:
  "aes_decrypt sample_env (aes_encrypt sample_env sl m k) k = Some m"
  by (simp add: sample_env_def)

lemma sample_prefix_wrong_key:
  assumes "k' \<noteq> k"
  shows "take (2 * length k' + 1) (replicate (length k) CHR ''1'' @ CHR ''0'' # k @ m)
           \<noteq> replicate (length k') CHR ''1'' @ CHR ''0'' # k'"
proof
  let ?c = "replicate (length k) CHR ''1'' @ CHR ''0'' # k @ m"
  assume eq: "take (2 * length k' + 1) ?c = replicate (length k') CHR ''1'' @ CHR ''0'' # k'"
  consider "length k' < length k" | "length k < length k'" | "length k' = length k"
    by linarith
  then show False
  proof cases
    case 1
    have "take (2 * length k' + 1) ?c ! length k' = CHR ''1''"
      using 1 by (simp add: nth_append)
    moreover have "(replicate (length k') CHR ''1'' @ CHR ''0'' # k') ! length k' = CHR ''0''"
      by (simp add: nth_append)
    ultimately show False using eq by simp
  next
    case 2
    have "take (2 * length k' + 1) ?c ! length k = CHR ''0''"
      using 2 by (simp add: nth_append)
    moreover have "(replicate (length k') CHR ''1'' @ CHR ''0'' # k') ! length k = CHR ''1''"
      using 2 by (simp add: nth_append)
    ultimately show False using eq by simp
  next
    case 3
    with eq have "k' = k" by simp
    with assms show False by simp
  qed
qed

lemma sample_cipher_wrong_key:
  assumes "k' \<noteq> k"
  shows "aes_decrypt sample_env (aes_encrypt sample_env sl m k) k' = Some []"
  using sample_prefix_wrong_key [OF assms, of m] by (simp add: sample_env_def)

text \<open>
  C1 on the code. \<open>encryptMessage\<close> and \<open>decryptMessage\<close> call one passphrase cipher,
  and the public key of a pair is the hash of the private key. For every cipher that
  decrypts under the passphrase it encrypted under, and every pair whose two keys
  differ, the two halves of the claim cannot both hold: the ciphertext made under the
  public key decrypts under the public key, which is a string other than the private
  key.
\<close>

theorem public_key_ciphertext_needs_public_key:
  assumes "\<forall>sl m k. aes_decrypt E (aes_encrypt E sl m k) k = Some m"
    and "sha256 E rnd \<noteq> rnd"
  shows "decryptMessage E
           (Some (encryptMessage E sl m (kp_publicKey (generateKeyPair E rnd))))
           (kp_publicKey (generateKeyPair E rnd)) = Some m \<and>
         kp_publicKey (generateKeyPair E rnd) \<noteq> kp_privateKey (generateKeyPair E rnd) \<and>
         \<not> (decryptMessage E
               (Some (encryptMessage E sl m (kp_publicKey (generateKeyPair E rnd))))
               (kp_privateKey (generateKeyPair E rnd)) = Some m \<and>
             (\<forall>key. key \<noteq> kp_privateKey (generateKeyPair E rnd) \<longrightarrow>
                decryptMessage E
                  (Some (encryptMessage E sl m (kp_publicKey (generateKeyPair E rnd)))) key
                  \<noteq> Some m))"
proof -
  have pub: "decryptMessage E
           (Some (encryptMessage E sl m (kp_publicKey (generateKeyPair E rnd))))
           (kp_publicKey (generateKeyPair E rnd)) = Some m"
    using assms(1) by (simp add: decryptMessage_def encryptMessage_def)
  have ne: "kp_publicKey (generateKeyPair E rnd) \<noteq> kp_privateKey (generateKeyPair E rnd)"
    using assms(2) by (simp add: generateKeyPair_def Let_def)
  from pub ne show ?thesis by blast
qed

text \<open>
  Under the sample cipher, which yields the empty text under another passphrase, the
  sample identity's private key does not decrypt what was encrypted under its public
  key.
\<close>

theorem public_key_ciphertext_needs_public_key_witness:
  "decryptMessage sample_env
     (Some (encryptMessage sample_env 0 ''hello'' (kp_publicKey (generateKeyPair sample_env ''a1''))))
     (kp_privateKey (generateKeyPair sample_env ''a1'')) = Some [] \<and>
   decryptMessage sample_env
     (Some (encryptMessage sample_env 0 ''hello'' (kp_publicKey (generateKeyPair sample_env ''a1''))))
     (kp_publicKey (generateKeyPair sample_env ''a1'')) = Some ''hello''"
proof -
  have rt: "\<forall>sl m k. aes_decrypt sample_env (aes_encrypt sample_env sl m k) k = Some m"
    by (simp add: sample_cipher_round_trip)
  have h: "sha256 sample_env ''a1'' \<noteq> ''a1''"
    by (simp add: sample_env_def)
  have keys: "kp_publicKey (generateKeyPair sample_env ''a1'') = ''#a1''"
    "kp_privateKey (generateKeyPair sample_env ''a1'') = ''a1''"
    by (simp_all add: generateKeyPair_def sample_env_def Let_def)
  have "''a1'' \<noteq> ''#a1''" by simp
  then have "aes_decrypt sample_env (aes_encrypt sample_env 0 ''hello'' ''#a1'') ''a1'' = Some []"
    by (rule sample_cipher_wrong_key)
  then have priv: "decryptMessage sample_env
     (Some (encryptMessage sample_env 0 ''hello'' ''#a1'')) ''a1'' = Some []"
    by (simp add: decryptMessage_def encryptMessage_def)
  from public_key_ciphertext_needs_public_key [OF rt h, of 0 "''hello''"] priv
  show ?thesis by (simp only: keys)
qed

subsection \<open>Export and import of an identity\<close>

text \<open>
  C9. \<open>importIdentity\<close> is total: every exception of its body is caught and becomes
  \<open>null\<close>. When the cipher gives back under the passphrase of the export what it
  encrypted, and \<open>JSON.parse\<close> reads back what \<open>JSON.stringify\<close> wrote, the import under
  that passphrase yields the identity object. Under any passphrase the result is
  \<open>null\<close> when the decryption throws or yields a text that \<open>JSON.parse\<close> rejects, and it
  is the parsed value when the decryption yields a text that \<open>JSON.parse\<close> accepts:
  nothing in the function tells the passphrase of the export from another one, nor an
  identity object from any other value.
\<close>

theorem importIdentity_returns_what_parses:
  "(aes_decrypt E (aes_encrypt E sl (json_stringify E (identity_json ident)) (SALT @ password))
        (SALT @ password) = Some (json_stringify E (identity_json ident)) \<longrightarrow>
    json_parse E (json_stringify E (identity_json ident)) = Some (identity_json ident) \<longrightarrow>
      importIdentity E (exportIdentity E sl ident password) password = identity_json ident) \<and>
   (aes_decrypt E (exportIdentity E sl ident password) (SALT @ p') = Some t \<longrightarrow>
    json_parse E t = Some v \<longrightarrow>
      importIdentity E (exportIdentity E sl ident password) p' = v) \<and>
   (aes_decrypt E c (SALT @ p') = None \<longrightarrow> importIdentity E c p' = JNull) \<and>
   (aes_decrypt E c (SALT @ p') = Some t \<longrightarrow> json_parse E t = None \<longrightarrow>
      importIdentity E c p' = JNull)"
  by (simp add: importIdentity_def exportIdentity_def Let_def)

text \<open>
  The sample identity, exported under the passphrase \<open>secret\<close> with the cipher whose
  decryption under another passphrase is the text \<open>5\<close>: the import under \<open>secret\<close> yields
  the identity object, and the import under \<open>guess\<close> yields the number 5, which is
  neither \<open>null\<close> nor an identity object.
\<close>

theorem importIdentity_returns_what_parses_witness:
  "importIdentity sample_env_5 (exportIdentity sample_env_5 0 sample_identity ''secret'') ''secret''
     = identity_json sample_identity \<and>
   ''guess'' \<noteq> ''secret'' \<and>
   importIdentity sample_env_5 (exportIdentity sample_env_5 0 sample_identity ''secret'') ''guess''
     = JNum 5 \<and>
   JNum 5 \<noteq> JNull"
proof -
  have rt5: "aes_decrypt sample_env_5 (aes_encrypt sample_env_5 sl m k) k = Some m" for sl m k
    by (simp add: sample_env_5_def sample_env_def)
  have wk5: "aes_decrypt sample_env_5 (aes_encrypt sample_env_5 sl m k) k' = Some ''5''"
    if "k' \<noteq> k" for sl m k k'
    using sample_prefix_wrong_key [OF that, of m] by (simp add: sample_env_5_def sample_env_def)
  have js: "json_stringify sample_env_5 (identity_json sample_identity) = ''{alice}''"
    by (simp add: sample_env_5_def sample_env_def)
  have jp: "json_parse sample_env_5 ''{alice}'' = Some (identity_json sample_identity)"
    "json_parse sample_env_5 ''5'' = Some (JNum 5)"
    by (simp_all add: sample_env_5_def)
  have rt: "aes_decrypt sample_env_5
        (aes_encrypt sample_env_5 0 (json_stringify sample_env_5 (identity_json sample_identity))
           (SALT @ ''secret''))
        (SALT @ ''secret'') = Some (json_stringify sample_env_5 (identity_json sample_identity))"
    by (rule rt5)
  have rp: "json_parse sample_env_5 (json_stringify sample_env_5 (identity_json sample_identity))
              = Some (identity_json sample_identity)"
    by (simp add: js jp)
  have "SALT @ ''guess'' \<noteq> SALT @ ''secret''" by simp
  then have wr: "aes_decrypt sample_env_5 (exportIdentity sample_env_5 0 sample_identity ''secret'')
              (SALT @ ''guess'') = Some ''5''"
    unfolding exportIdentity_def Let_def by (rule wk5)
  note t = importIdentity_returns_what_parses [of sample_env_5 0 sample_identity "''secret''"
      "''guess''" "''5''" "JNum 5"]
  from t [THEN conjunct1, rule_format, OF rt rp]
    t [THEN conjunct2, THEN conjunct1, rule_format, OF wr jp(2)]
  show ?thesis by simp
qed

end
